theory Spec2Isabelle
  imports Main "HOL-Library.Word"
begin

unbundle bit_operations_syntax

section \<open>The spisens SPI sensor driver (spisensdrv.c)\<close>

text \<open>
  The driver is a probe routine and three sysfs callbacks over the kernel's regmap, sysfs
  and device-managed allocation services. Those services are not part of the driver, so
  every call to one of them is modelled by its outcome, given as an argument, and is
  recorded in the list of calls the driver function made. C \<open>unsigned int\<close> is a 32-bit
  word. The status codes of probe and of the show callbacks, which are only compared with
  zero and passed on, are \<open>int\<close>. In \<open>enable_store\<close>, whose result converts an
  \<open>int\<close> and a \<open>size_t\<close> to \<open>ssize_t\<close>, a C \<open>int\<close> is a 32-bit word read as a signed
  number, and \<open>size_t\<close> and \<open>ssize_t\<close> are words of the width \<open>'l\<close> of the target's
  \<open>long\<close>.
\<close>

type_synonym u32 = "32 word"

type_synonym s32 = "32 word"

subsection \<open>Constants\<close>

definition SPISENS_REG_SHIFT :: nat where
  "SPISENS_REG_SHIFT = 4"

definition SPISENS_REG_ID :: u32 where
  "SPISENS_REG_ID = push_bit SPISENS_REG_SHIFT 0"

definition SPISENS_REG_CTRL :: u32 where
  "SPISENS_REG_CTRL = push_bit SPISENS_REG_SHIFT 1"

definition SPISENS_REG_DATA :: u32 where
  "SPISENS_REG_DATA = push_bit SPISENS_REG_SHIFT 2"

definition CTRL_EN_MASK :: u32 where
  "CTRL_EN_MASK = 0x1"

definition SPISENS_ID :: u32 where
  "SPISENS_ID = 0x5A"

text \<open>Error numbers of the kernel (errno-base.h, err.h).\<close>

definition ENOMEM :: int where
  "ENOMEM = 12"

definition ENODEV :: int where
  "ENODEV = 19"

definition MAX_ERRNO :: int where
  "MAX_ERRNO = 4095"

text \<open>
  A pointer that may carry an error is its value read as a signed long: \<open>IS_ERR\<close> holds
  of the topmost \<open>MAX_ERRNO\<close> addresses, that is of the values \<open>-MAX_ERRNO .. -1\<close>, and
  \<open>PTR_ERR\<close> is the value itself.
\<close>

definition IS_ERR :: "int \<Rightarrow> bool" where
  "IS_ERR p = (- MAX_ERRNO \<le> p \<and> p < 0)"

definition PTR_ERR :: "int \<Rightarrow> int" where
  "PTR_ERR p = p"

subsection \<open>Private data and the calls the driver makes\<close>

record spisens =
  regmap :: int

datatype call =
    Devm_kzalloc
  | Spi_set_drvdata
  | Spi_setup
  | Devm_regmap_init_spi
  | Regmap_read int u32
  | Regmap_write int u32 u32
  | Sscanf string
  | Sysfs_create_group
  | Dev_err string
  | Dev_info string

text \<open>
  The outcome of one \<open>regmap_read(map, reg, &val)\<close>: the status returned and the value
  stored through the pointer, if the call stored one.
\<close>

record regmap_read_out =
  rd_status :: int
  rd_stored :: "u32 option"

text \<open>
  A local variable that was declared without an initialiser and whose address was handed
  to a call: it holds what the call stored, and otherwise the indeterminate value it
  started with.
\<close>

definition var_after :: "'a \<Rightarrow> 'a option \<Rightarrow> 'a" where
  "var_after uninit stored = (case stored of None \<Rightarrow> uninit | Some v \<Rightarrow> v)"

subsection \<open>Formatting: \<open>sprintf(buf, "%d\n", x)\<close>\<close>

definition nl :: char where
  "nl = CHR 0x0A"

definition digit_char :: "nat \<Rightarrow> char" where
  "digit_char d = char_of (of_char CHR ''0'' + d)"

fun dec_nat :: "nat \<Rightarrow> string" where
  "dec_nat n = (if n < 10 then [digit_char n] else dec_nat (n div 10) @ [digit_char (n mod 10)])"

declare dec_nat.simps [simp del]

definition fmt_d :: "int \<Rightarrow> string" where
  "fmt_d i = (if i < 0 then CHR ''-'' # dec_nat (nat (- i)) else dec_nat (nat i))"

definition sprintf_d_nl :: "int \<Rightarrow> string" where
  "sprintf_d_nl i = fmt_d i @ [nl]"

text \<open>Reading a decimal numeral back, to say what \<open>dec_nat\<close> produces.\<close>

definition digit_val :: "char \<Rightarrow> nat" where
  "digit_val c = of_char c - of_char CHR ''0''"

definition dec_value :: "string \<Rightarrow> nat" where
  "dec_value s = foldl (\<lambda>a c. 10 * a + digit_val c) 0 s"

subsection \<open>The sysfs callbacks\<close>

record show_out =
  out_buf :: string
  out_ret :: int
  out_calls :: "call list"

text \<open>
  \<open>data_show\<close>: \<open>rd\<close> is the outcome of the read of the DATA register and \<open>uninit\<close> the
  indeterminate start value of the local \<open>temperature\<close>. The status \<open>err\<close> is assigned
  and never looked at. \<open>%d\<close> prints the unsigned word as a signed int.
\<close>

definition data_show :: "spisens \<Rightarrow> regmap_read_out \<Rightarrow> u32 \<Rightarrow> show_out" where
  "data_show data rd uninit =
     (let temperature = var_after uninit (rd_stored rd);
          temperature = temperature * 1000;
          temperature = drop_bit 1 temperature;
          s = sprintf_d_nl (sint temperature)
      in \<lparr>out_buf = s, out_ret = int (length s),
          out_calls = [Regmap_read (regmap data) SPISENS_REG_DATA]\<rparr>)"

text \<open>
  \<open>enable_show\<close>: \<open>rd\<close> is the outcome of the read of the CTRL register and \<open>uninit\<close> the
  indeterminate start value of the local \<open>enable\<close>. \<open>!!enable\<close> is 1 for a nonzero value
  and 0 otherwise.
\<close>

definition enable_show :: "spisens \<Rightarrow> regmap_read_out \<Rightarrow> u32 \<Rightarrow> show_out" where
  "enable_show data rd uninit =
     (let enable = var_after uninit (rd_stored rd);
          enable = enable AND CTRL_EN_MASK;
          s = sprintf_d_nl (if enable \<noteq> 0 then 1 else 0)
      in \<lparr>out_buf = s, out_ret = int (length s),
          out_calls = [Regmap_read (regmap data) SPISENS_REG_CTRL]\<rparr>)"

text \<open>
  What \<open>enable_store\<close> meets: the outcome of the read of CTRL, the kernel's
  \<open>sscanf(buf, "%d", &enable)\<close> as a function from the text to the \<open>int\<close> it stores (if
  it parses one), the status of the write of CTRL, and the indeterminate start values of
  the locals \<open>ctrl\<close> and \<open>enable\<close>.
\<close>

record store_env =
  ctrl_read :: regmap_read_out
  sscanf_d :: "string \<Rightarrow> s32 option"
  write_status :: s32
  ctrl_uninit :: u32
  enable_uninit :: s32

record (overloaded) ('l::len) store_out =
  st_ret :: "'l word"
  st_calls :: "call list"

text \<open>
  \<open>enable_store\<close>: the status of the read is assigned to \<open>err\<close> and overwritten by the
  status of the write without being looked at. \<open>return err\<close> converts the \<open>int\<close> to
  \<open>ssize_t\<close> by sign extension; \<open>return count\<close> converts the \<open>size_t\<close> to \<open>ssize_t\<close>,
  which keeps the bits.
\<close>

definition enable_store ::
  "spisens \<Rightarrow> store_env \<Rightarrow> string \<Rightarrow> 'l::len word \<Rightarrow> 'l store_out" where
  "enable_store data env buf count =
     (let ctrl = var_after (ctrl_uninit env) (rd_stored (ctrl_read env));
          enable = var_after (enable_uninit env) (sscanf_d env buf);
          ctrl = (if enable = 0 then ctrl AND NOT CTRL_EN_MASK else ctrl OR CTRL_EN_MASK);
          err = write_status env
      in \<lparr>st_ret = (if sint err < 0 then scast err else count),
          st_calls = [Regmap_read (regmap data) SPISENS_REG_CTRL, Sscanf buf,
                      Regmap_write (regmap data) SPISENS_REG_CTRL ctrl]\<rparr>)"

subsection \<open>The attribute table\<close>

text \<open>
  \<open>DEVICE_ATTR_RO(name)\<close> declares an attribute of mode 0444 (octal) with \<open>name_show\<close>
  and no store callback; \<open>DEVICE_ATTR_RW(name)\<close> one of mode 0644 with \<open>name_show\<close> and
  \<open>name_store\<close> (device.h, sysfs.h).
\<close>

definition S_IRUGO :: nat where
  "S_IRUGO = 4 * 64 + 4 * 8 + 4"

definition S_IWUSR :: nat where
  "S_IWUSR = 2 * 64"

record (overloaded) ('l::len) device_attribute =
  attr_name :: string
  attr_mode :: nat
  attr_show :: "(spisens \<Rightarrow> regmap_read_out \<Rightarrow> u32 \<Rightarrow> show_out) option"
  attr_store :: "(spisens \<Rightarrow> store_env \<Rightarrow> string \<Rightarrow> 'l word \<Rightarrow> 'l store_out) option"

definition DEVICE_ATTR_RO ::
  "string \<Rightarrow> (spisens \<Rightarrow> regmap_read_out \<Rightarrow> u32 \<Rightarrow> show_out) \<Rightarrow>
   ('l::len) device_attribute" where
  "DEVICE_ATTR_RO name show_fn =
     \<lparr>attr_name = name, attr_mode = S_IRUGO, attr_show = Some show_fn, attr_store = None\<rparr>"

definition DEVICE_ATTR_RW ::
  "string \<Rightarrow> (spisens \<Rightarrow> regmap_read_out \<Rightarrow> u32 \<Rightarrow> show_out) \<Rightarrow>
   (spisens \<Rightarrow> store_env \<Rightarrow> string \<Rightarrow> 'l word \<Rightarrow> 'l store_out) \<Rightarrow>
   ('l::len) device_attribute" where
  "DEVICE_ATTR_RW name show_fn store_fn =
     \<lparr>attr_name = name, attr_mode = S_IRUGO + S_IWUSR, attr_show = Some show_fn,
      attr_store = Some store_fn\<rparr>"

definition dev_attr_enable :: "('l::len) device_attribute" where
  "dev_attr_enable = DEVICE_ATTR_RW ''enable'' enable_show enable_store"

definition dev_attr_data :: "('l::len) device_attribute" where
  "dev_attr_data = DEVICE_ATTR_RO ''data'' data_show"

definition spisens_attrs :: "('l::len) device_attribute list" where
  "spisens_attrs = [dev_attr_enable, dev_attr_data]"

subsection \<open>The register map configuration\<close>

definition spisens_regmap_is_writeable :: "'dev \<Rightarrow> u32 \<Rightarrow> bool" where
  "spisens_regmap_is_writeable dev reg = (reg = SPISENS_REG_CTRL)"

subsection \<open>Probe\<close>

record spi_device =
  bits_per_word :: nat
  drvdata :: "spisens option"

text \<open>
  What \<open>spisens_probe\<close> meets: whether \<open>devm_kzalloc\<close> returned memory, the pointer
  \<open>devm_regmap_init_spi\<close> returned, the outcome of the read of the ID register, the
  status of \<open>sysfs_create_group\<close>, and the indeterminate start value of \<open>regval\<close>.
\<close>

record probe_env =
  kzalloc_ok :: bool
  regmap_ptr :: int
  id_read :: regmap_read_out
  sysfs_status :: int
  regval_uninit :: u32

record probe_out =
  pr_ret :: int
  pr_calls :: "call list"
  pr_spi :: spi_device

definition spisens_probe :: "spi_device \<Rightarrow> probe_env \<Rightarrow> probe_out" where
  "spisens_probe spi env =
     (if \<not> kzalloc_ok env then
        \<lparr>pr_ret = - ENOMEM, pr_calls = [Devm_kzalloc], pr_spi = spi\<rparr>
      else
        let data = \<lparr>regmap = 0\<rparr>;
            spi = spi\<lparr>drvdata := Some data\<rparr>;
            spi = spi\<lparr>bits_per_word := 8\<rparr>;
            data = data\<lparr>regmap := regmap_ptr env\<rparr>;
            spi = spi\<lparr>drvdata := Some data\<rparr>;
            cs = [Devm_kzalloc, Spi_set_drvdata, Spi_setup, Devm_regmap_init_spi]
        in
          if IS_ERR (regmap data) then
            \<lparr>pr_ret = PTR_ERR (regmap data),
             pr_calls = cs @ [Dev_err (''failed to allocate register map'' @ [nl])],
             pr_spi = spi\<rparr>
          else
            let status = rd_status (id_read env);
                regval = var_after (regval_uninit env) (rd_stored (id_read env));
                cs = cs @ [Regmap_read (regmap data) SPISENS_REG_ID]
            in
              if status < 0 then
                \<lparr>pr_ret = status,
                 pr_calls = cs @ [Dev_err (''error reading ID register'' @ [nl])],
                 pr_spi = spi\<rparr>
              else if regval \<noteq> SPISENS_ID then
                \<lparr>pr_ret = - ENODEV,
                 pr_calls = cs @ [Dev_err (''unexpected ID'' @ [nl])],
                 pr_spi = spi\<rparr>
              else
                let status = sysfs_status env;
                    cs = cs @ [Sysfs_create_group]
                in
                  \<lparr>pr_ret = 0,
                   pr_calls = (if status \<noteq> 0
                               then cs @ [Dev_info (''Cannot create sysfs'' @ [nl])]
                               else cs),
                   pr_spi = spi\<rparr>)"

subsection \<open>Register transactions in a list of calls\<close>

fun writes :: "call list \<Rightarrow> (u32 \<times> u32) list" where
  "writes [] = []"
| "writes (Regmap_write h reg v # cs) = (reg, v) # writes cs"
| "writes (c # cs) = writes cs"

fun reads :: "call list \<Rightarrow> u32 list" where
  "reads [] = []"
| "reads (Regmap_read h reg # cs) = reg # reads cs"
| "reads (c # cs) = reads cs"

section \<open>Auxiliary facts\<close>

lemma reg_values:
  "SPISENS_REG_ID = 0" "SPISENS_REG_CTRL = 16" "SPISENS_REG_DATA = 32"
  by (simp_all add: SPISENS_REG_ID_def SPISENS_REG_CTRL_def SPISENS_REG_DATA_def
      SPISENS_REG_SHIFT_def)

lemma digit_val_digit_char: "d < 10 \<Longrightarrow> digit_val (digit_char d) = d"
  by (simp add: digit_val_def digit_char_def)

lemma dec_value_dec_nat: "dec_value (dec_nat n) = n"
proof (induction n rule: dec_nat.induct)
  case (1 n)
  show ?case
  proof (cases "n < 10")
    case True
    then show ?thesis
      by (subst dec_nat.simps) (simp add: dec_value_def digit_val_digit_char)
  next
    case False
    then have "dec_value (dec_nat (n div 10)) = n div 10" using 1 by simp
    then show ?thesis using False
      by (subst dec_nat.simps) (simp add: dec_value_def digit_val_digit_char)
  qed
qed

lemma fmt_d_nat: "fmt_d (int n) = dec_nat n"
  by (simp add: fmt_d_def)

lemma and_mask_bit0: "(c AND CTRL_EN_MASK \<noteq> 0) = bit (c::u32) 0"
  by (simp add: CTRL_EN_MASK_def and_one_eq mod2_eq_if bit_0 flip: even_iff_mod_2_eq_zero)

lemma clear_bit0: "bit ((c::u32) AND NOT CTRL_EN_MASK) 0 = False"
  by (simp add: CTRL_EN_MASK_def bit_simps)

lemma set_bit0: "bit ((c::u32) OR CTRL_EN_MASK) 0 = True"
  by (simp add: CTRL_EN_MASK_def bit_simps)

lemma drop_clear_bit0: "drop_bit 1 ((c::u32) AND NOT CTRL_EN_MASK) = drop_bit 1 c"
proof (rule bit_eqI)
  fix n
  have "bit (c AND NOT 1) (Suc n) = bit c (Suc n)"
    by (auto simp only: bit_and_iff bit_not_iff bit_1_iff dest: bit_imp_possible_bit)
  then show "bit (drop_bit 1 (c AND NOT CTRL_EN_MASK)) n = bit (drop_bit 1 c) n"
    by (simp only: bit_drop_bit_eq CTRL_EN_MASK_def add_Suc plus_1_eq_Suc comp_apply)
qed

lemma drop_set_bit0: "drop_bit 1 ((c::u32) OR CTRL_EN_MASK) = drop_bit 1 c"
proof (rule bit_eqI)
  fix n
  have "bit (c OR 1) (Suc n) = bit c (Suc n)"
    by (auto simp only: bit_or_iff bit_1_iff)
  then show "bit (drop_bit 1 (c OR CTRL_EN_MASK)) n = bit (drop_bit 1 c) n"
    by (simp only: bit_drop_bit_eq CTRL_EN_MASK_def add_Suc plus_1_eq_Suc comp_apply)
qed

lemma scale_by_500:
  assumes a: "unat (v::u32) \<le> 255"
  shows "sint (drop_bit 1 (v * 1000)) = int (unat v) * 500"
proof -
  let ?w = "drop_bit 1 (v * 1000)"
  have m: "unat (v * 1000) = unat v * 1000"
    using a by (simp add: unat_word_ariths)
  have "unat ?w = unat (v * 1000) div 2"
    by (simp add: drop_bit_eq_div unat_div)
  then have d: "unat ?w = unat v * 500"
    using m by simp
  have u: "uint ?w = int (unat v) * 500"
    by (simp only: uint_nat d of_nat_mult of_nat_numeral)
  have lo: "- (2 ^ 31) \<le> uint ?w"
    by (rule order_trans [of _ 0]) simp_all
  have "int (unat v) * 500 \<le> 255 * 500"
    using a by linarith
  then have hi: "uint ?w < 2 ^ 31"
    by (simp only: u) simp
  have "sint ?w = signed_take_bit 31 (uint ?w)"
    by (simp add: sint_uint)
  also have "\<dots> = uint ?w"
    using lo hi by (rule signed_take_bit_int_eq_self)
  finally show ?thesis
    by (simp only: u)
qed

lemma sprintf_d_nl_0: "sprintf_d_nl 0 = ''0'' @ [nl]"
  by (simp add: sprintf_d_nl_def fmt_d_def dec_nat.simps digit_char_def char_of_def bit_0)

lemma sprintf_d_nl_1: "sprintf_d_nl 1 = ''1'' @ [nl]"
  by (simp add: sprintf_d_nl_def fmt_d_def dec_nat.simps digit_char_def char_of_def bit_0)

lemma dec_nat_127500: "dec_nat 127500 = ''127500''"
  by (simp add: dec_nat.simps digit_char_def char_of_def bit_0)

lemma sint_int_to_ssize:
  assumes "32 \<le> LENGTH('l::len)"
  shows "sint (scast (e :: s32) :: 'l word) = sint e"
  by (rule sint_up_scast) (simp add: is_up assms)

lemma sint_size_to_ssize:
  fixes count :: "'l::len word"
  assumes "unat count < 2 ^ (LENGTH('l) - 1)"
  shows "sint count = int (unat count)"
proof -
  have u: "uint count = int (unat count)"
    by (simp only: uint_nat)
  have lo: "- (2 ^ (LENGTH('l) - Suc 0)) \<le> uint count"
    by (rule order_trans [of _ 0]) simp_all
  have "int (unat count) < int (2 ^ (LENGTH('l) - 1))"
    using assms by (simp only: of_nat_less_iff)
  then have hi: "uint count < 2 ^ (LENGTH('l) - Suc 0)"
    by simp
  have "sint count = signed_take_bit (LENGTH('l) - Suc 0) (uint count)"
    by (rule sint_uint)
  also have "\<dots> = uint count"
    using lo hi by (rule signed_take_bit_int_eq_self)
  finally show ?thesis
    by (simp only: u)
qed

lemma enable_store_frame_read_ok:
  assumes "rd_stored (ctrl_read env) = Some c"
  shows "\<exists>w. st_calls (enable_store data env buf count)
             = [Regmap_read (regmap data) SPISENS_REG_CTRL, Sscanf buf,
                Regmap_write (regmap data) SPISENS_REG_CTRL w]
           \<and> drop_bit 1 w = drop_bit 1 c"
proof -
  let ?e = "var_after (enable_uninit env) (sscanf_d env buf)"
  let ?w = "if ?e = 0 then c AND NOT CTRL_EN_MASK else c OR CTRL_EN_MASK"
  have "st_calls (enable_store data env buf count)
          = [Regmap_read (regmap data) SPISENS_REG_CTRL, Sscanf buf,
             Regmap_write (regmap data) SPISENS_REG_CTRL ?w]"
    using assms by (simp add: enable_store_def var_after_def Let_def)
  moreover have "drop_bit 1 ?w = drop_bit 1 c"
    by (cases "?e = 0") (simp_all only: drop_clear_bit0 drop_set_bit0 if_True if_False refl simp_thms)
  ultimately show ?thesis
    by blast
qed

lemma enable_store_frame_read_failed:
  assumes "rd_stored (ctrl_read env) = None"
  shows "\<exists>w. st_calls (enable_store data env buf count)
             = [Regmap_read (regmap data) SPISENS_REG_CTRL, Sscanf buf,
                Regmap_write (regmap data) SPISENS_REG_CTRL w]
           \<and> drop_bit 1 w = drop_bit 1 (ctrl_uninit env)"
proof -
  let ?e = "var_after (enable_uninit env) (sscanf_d env buf)"
  let ?c = "ctrl_uninit env"
  let ?w = "if ?e = 0 then ?c AND NOT CTRL_EN_MASK else ?c OR CTRL_EN_MASK"
  have "st_calls (enable_store data env buf count)
          = [Regmap_read (regmap data) SPISENS_REG_CTRL, Sscanf buf,
             Regmap_write (regmap data) SPISENS_REG_CTRL ?w]"
    using assms by (simp add: enable_store_def var_after_def Let_def)
  moreover have "drop_bit 1 ?w = drop_bit 1 ?c"
    by (cases "?e = 0") (simp_all only: drop_clear_bit0 drop_set_bit0 if_True if_False refl simp_thms)
  ultimately show ?thesis
    by blast
qed

section \<open>The callbacks\<close>

text \<open>
  Claim C1. When the read of the DATA register stored an 8-bit value \<open>v\<close>, \<open>data_show\<close>
  writes the decimal numeral of \<open>v * 500\<close> followed by a newline: multiplying by 1000 and
  shifting right by one does not overflow 32 bits, and the numeral read back is \<open>v * 500\<close>.
\<close>

theorem data_show_scaled_by_500:
  assumes "rd_stored rd = Some v" and "unat v \<le> 255"
  shows "out_buf (data_show data rd uninit) = dec_nat (unat v * 500) @ [nl]
    \<and> dec_value (dec_nat (unat v * 500)) = unat v * 500"
proof -
  have "sint (drop_bit 1 (v * 1000)) = int (unat v * 500)"
    using scale_by_500 [OF assms(2)] by simp
  then have "out_buf (data_show data rd uninit) = dec_nat (unat v * 500) @ [nl]"
    using assms(1) by (simp only: data_show_def Let_def var_after_def option.case
        sprintf_d_nl_def fmt_d_nat show_out.simps)
  then show ?thesis
    by (simp only: dec_value_dec_nat simp_thms)
qed

theorem data_show_scaled_by_500_witness:
  "rd_stored \<lparr>rd_status = 0, rd_stored = Some 255\<rparr> = Some 255 \<and> unat (255 :: u32) \<le> 255
   \<and> out_buf (data_show \<lparr>regmap = 7\<rparr> \<lparr>rd_status = 0, rd_stored = Some 255\<rparr> 0) = ''127500'' @ [nl]"
  using data_show_scaled_by_500 [of "\<lparr>rd_status = 0, rd_stored = Some 255\<rparr>" 255 "\<lparr>regmap = 7\<rparr>" 0]
  by (simp add: dec_nat_127500)

text \<open>
  Claim C4. When \<open>sscanf\<close> parsed an integer from the input text and stored it as \<open>n\<close>,
  \<open>enable_store\<close> writes the CTRL register, once, with bit 0 set if \<open>n\<close> is not zero
  and cleared if it is. If the status of the write is negative the result is that status;
  otherwise the result is \<open>count\<close>: the same machine word, which read as \<open>ssize_t\<close> is
  the input length for every length up to the largest \<open>ssize_t\<close>. The target's \<open>long\<close>
  has at least the 32 bits of an \<open>int\<close>.
\<close>

theorem enable_store_bit0:
  fixes count :: "'l::len word"
  assumes "sscanf_d env buf = Some n" and "32 \<le> LENGTH('l)"
  shows "map (\<lambda>(r, w). (r, bit w 0)) (writes (st_calls (enable_store data env buf count)))
           = [(SPISENS_REG_CTRL, n \<noteq> 0)]
    \<and> st_ret (enable_store data env buf count)
           = (if sint (write_status env) < 0 then scast (write_status env) else count)
    \<and> (sint (write_status env) < 0 \<longrightarrow>
          sint (st_ret (enable_store data env buf count)) = sint (write_status env))
    \<and> (\<not> sint (write_status env) < 0 \<and> unat count < 2 ^ (LENGTH('l) - 1) \<longrightarrow>
          sint (st_ret (enable_store data env buf count)) = int (unat count))"
proof -
  have w: "map (\<lambda>(r, w). (r, bit w 0)) (writes (st_calls (enable_store data env buf count)))
           = [(SPISENS_REG_CTRL, n \<noteq> 0)]"
    using assms(1) by (simp add: enable_store_def var_after_def Let_def clear_bit0 set_bit0)
  have r: "st_ret (enable_store data env buf count)
           = (if sint (write_status env) < 0 then scast (write_status env) else count)"
    by (simp add: enable_store_def Let_def)
  have e: "sint (write_status env) < 0 \<longrightarrow>
          sint (st_ret (enable_store data env buf count)) = sint (write_status env)"
    by (simp add: r sint_int_to_ssize [OF assms(2)])
  have c: "\<not> sint (write_status env) < 0 \<and> unat count < 2 ^ (LENGTH('l) - 1) \<longrightarrow>
          sint (st_ret (enable_store data env buf count)) = int (unat count)"
    by (simp add: r sint_size_to_ssize)
  from w r e c show ?thesis
    by (intro conjI)
qed

theorem enable_store_bit0_witness:
  "sscanf_d \<lparr>ctrl_read = \<lparr>rd_status = 0, rd_stored = Some 0xA4\<rparr>,
       sscanf_d = [''1'' \<mapsto> 1, ''0'' \<mapsto> 0], write_status = 0, ctrl_uninit = 0,
       enable_uninit = 0\<rparr> ''1'' = Some 1
   \<and> 32 \<le> LENGTH(64)
   \<and> enable_store \<lparr>regmap = 7\<rparr> \<lparr>ctrl_read = \<lparr>rd_status = 0, rd_stored = Some 0xA4\<rparr>,
       sscanf_d = [''1'' \<mapsto> 1, ''0'' \<mapsto> 0], write_status = 0, ctrl_uninit = 0,
       enable_uninit = 0\<rparr> ''1'' (1 :: 64 word)
     = \<lparr>st_ret = 1, st_calls = [Regmap_read 7 16, Sscanf ''1'', Regmap_write 7 16 0xA5]\<rparr>
   \<and> enable_store \<lparr>regmap = 7\<rparr> \<lparr>ctrl_read = \<lparr>rd_status = 0, rd_stored = Some 0xA5\<rparr>,
       sscanf_d = [''1'' \<mapsto> 1, ''0'' \<mapsto> 0], write_status = - 5, ctrl_uninit = 0,
       enable_uninit = 0\<rparr> ''0'' (1 :: 64 word)
     = \<lparr>st_ret = - 5, st_calls = [Regmap_read 7 16, Sscanf ''0'', Regmap_write 7 16 0xA4]\<rparr>
   \<and> sint (st_ret (enable_store \<lparr>regmap = 7\<rparr>
       \<lparr>ctrl_read = \<lparr>rd_status = 0, rd_stored = Some 0xA4\<rparr>,
       sscanf_d = [''1'' \<mapsto> 1, ''0'' \<mapsto> 0], write_status = 0, ctrl_uninit = 0,
       enable_uninit = 0\<rparr> ''1'' (0xFFFFFFFFFFFFFFFF :: 64 word))) = - 1"
  using
    enable_store_bit0 [where env = "\<lparr>ctrl_read = \<lparr>rd_status = 0, rd_stored = Some 0xA4\<rparr>,
       sscanf_d = [''1'' \<mapsto> 1, ''0'' \<mapsto> 0], write_status = 0, ctrl_uninit = 0,
       enable_uninit = 0\<rparr>" and buf = "''1''" and n = 1 and count = "1 :: 64 word"
       and data = "\<lparr>regmap = 7\<rparr>"]
    enable_store_bit0 [where env = "\<lparr>ctrl_read = \<lparr>rd_status = 0, rd_stored = Some 0xA5\<rparr>,
       sscanf_d = [''1'' \<mapsto> 1, ''0'' \<mapsto> 0], write_status = - 5, ctrl_uninit = 0,
       enable_uninit = 0\<rparr>" and buf = "''0''" and n = 0 and count = "1 :: 64 word"
       and data = "\<lparr>regmap = 7\<rparr>"]
  by (simp add: enable_store_def var_after_def reg_values CTRL_EN_MASK_def)

text \<open>
  Claim C5. For every CTRL value \<open>c\<close> the read stored, \<open>enable_show\<close> writes exactly
  \<open>1\<close> and a newline when bit 0 of \<open>c\<close> is set and \<open>0\<close> and a newline when it is clear,
  whatever the other bits of \<open>c\<close> are.
\<close>

theorem enable_show_text:
  "out_buf (enable_show data \<lparr>rd_status = s, rd_stored = Some c\<rparr> uninit)
     = (if bit c 0 then ''1'' else ''0'') @ [nl]"
  by (simp add: enable_show_def var_after_def and_mask_bit0 sprintf_d_nl_0 sprintf_d_nl_1)

text \<open>
  Claim C7. \<open>enable_store\<close> reads CTRL, changes bit 0 and writes the value back, and
  when the read stored a value every bit above bit 0 is written back as read
  (\<open>enable_store_frame_read_ok\<close>). The status of the read is never looked at, though,
  where \<open>spisens_probe\<close> checks the status of its read and \<open>enable_store\<close> itself the
  status of its write. When the read fails and stores nothing, the value written is the
  indeterminate start value of the local \<open>ctrl\<close> with bit 0 changed
  (\<open>enable_store_frame_read_failed\<close>). Here the read fails with status -5, \<open>ctrl\<close>
  starts as 0xDEADBEE0 and the input is 1: the call succeeds and writes 0xDEADBEE1, which
  differs above bit 0 from a CTRL register that held 0xA4; its low eight bits are 0xE1.
\<close>

theorem enable_store_failed_read_writes_stale_ctrl:
  "enable_store \<lparr>regmap = 7\<rparr> \<lparr>ctrl_read = \<lparr>rd_status = - 5, rd_stored = None\<rparr>,
       sscanf_d = [''1'' \<mapsto> 1], write_status = 0, ctrl_uninit = 0xDEADBEE0,
       enable_uninit = 0\<rparr> ''1'' (1 :: 64 word)
     = \<lparr>st_ret = 1,
        st_calls = [Regmap_read 7 16, Sscanf ''1'', Regmap_write 7 16 0xDEADBEE1]\<rparr>
   \<and> drop_bit 1 (0xDEADBEE1 :: u32) \<noteq> drop_bit 1 (0xA4 :: u32)
   \<and> take_bit 8 (0xDEADBEE1 :: u32) = 0xE1"
  by (simp add: enable_store_def var_after_def reg_values CTRL_EN_MASK_def)

text \<open>
  Claim C8. \<open>enable_show\<close> and \<open>data_show\<close> never look at the status of the register
  read: for every outcome they return the length of the text they wrote, which is
  positive, and the result is the same as for status 0. When the read stored nothing,
  the text is formatted from the indeterminate start value of the local variable.
\<close>

theorem show_ignores_read_status:
  "0 < out_ret (enable_show data rd u)
   \<and> out_ret (enable_show data rd u) = int (length (out_buf (enable_show data rd u)))
   \<and> 0 < out_ret (data_show data rd u)
   \<and> out_ret (data_show data rd u) = int (length (out_buf (data_show data rd u)))
   \<and> enable_show data rd u = enable_show data (rd\<lparr>rd_status := 0\<rparr>) u
   \<and> data_show data rd u = data_show data (rd\<lparr>rd_status := 0\<rparr>) u
   \<and> out_buf (enable_show data \<lparr>rd_status = e, rd_stored = None\<rparr> u)
       = sprintf_d_nl (if u AND CTRL_EN_MASK \<noteq> 0 then 1 else 0)
   \<and> out_buf (data_show data \<lparr>rd_status = e, rd_stored = None\<rparr> u)
       = sprintf_d_nl (sint (drop_bit 1 (u * 1000)))"
  by (simp add: enable_show_def data_show_def var_after_def Let_def sprintf_d_nl_def)

section \<open>Probe and the register map\<close>

text \<open>
  Claim C2. Once the allocation and the register map succeeded and the read of the ID
  register returned no negative status, \<open>spisens_probe\<close> has read the ID register once
  and compares the value with 0x5A: a different value makes it return \<open>-ENODEV\<close>
  without creating the attribute group; the value 0x5A lets it go on to create the group
  and return 0.
\<close>

theorem probe_id_check:
  assumes "kzalloc_ok env" and "\<not> IS_ERR (regmap_ptr env)"
    and "\<not> rd_status (id_read env) < 0" and "rd_stored (id_read env) = Some regval"
  shows "reads (pr_calls (spisens_probe spi env)) = [SPISENS_REG_ID]
    \<and> (if regval \<noteq> 0x5A
        then pr_ret (spisens_probe spi env) = - ENODEV
           \<and> Sysfs_create_group \<notin> set (pr_calls (spisens_probe spi env))
        else pr_ret (spisens_probe spi env) = 0
           \<and> Sysfs_create_group \<in> set (pr_calls (spisens_probe spi env)))"
  using assms
  by (simp add: spisens_probe_def Let_def var_after_def SPISENS_ID_def)

theorem probe_id_check_witness:
  "pr_ret (spisens_probe \<lparr>bits_per_word = 0, drvdata = None\<rparr>
      \<lparr>kzalloc_ok = True, regmap_ptr = 4096, id_read = \<lparr>rd_status = 0, rd_stored = Some 0x5B\<rparr>,
       sysfs_status = 0, regval_uninit = 0\<rparr>) = - 19
   \<and> pr_ret (spisens_probe \<lparr>bits_per_word = 0, drvdata = None\<rparr>
      \<lparr>kzalloc_ok = True, regmap_ptr = 4096, id_read = \<lparr>rd_status = 0, rd_stored = Some 0x5A\<rparr>,
       sysfs_status = 0, regval_uninit = 0\<rparr>) = 0
   \<and> pr_calls (spisens_probe \<lparr>bits_per_word = 0, drvdata = None\<rparr>
      \<lparr>kzalloc_ok = True, regmap_ptr = 4096, id_read = \<lparr>rd_status = 0, rd_stored = Some 0x5A\<rparr>,
       sysfs_status = 0, regval_uninit = 0\<rparr>)
     = [Devm_kzalloc, Spi_set_drvdata, Spi_setup, Devm_regmap_init_spi, Regmap_read 4096 0,
        Sysfs_create_group]"
  using
    probe_id_check [of "\<lparr>kzalloc_ok = True, regmap_ptr = 4096,
       id_read = \<lparr>rd_status = 0, rd_stored = Some 0x5B\<rparr>, sysfs_status = 0, regval_uninit = 0\<rparr>"
       "0x5B" "\<lparr>bits_per_word = 0, drvdata = None\<rparr>"]
    probe_id_check [of "\<lparr>kzalloc_ok = True, regmap_ptr = 4096,
       id_read = \<lparr>rd_status = 0, rd_stored = Some 0x5A\<rparr>, sysfs_status = 0, regval_uninit = 0\<rparr>"
       "0x5A" "\<lparr>bits_per_word = 0, drvdata = None\<rparr>"]
  by (simp add: IS_ERR_def MAX_ERRNO_def ENODEV_def spisens_probe_def var_after_def
      SPISENS_ID_def reg_values)

text \<open>
  Claim C3. Each failure during attach makes \<open>spisens_probe\<close> return a negative code at
  once: \<open>-ENOMEM\<close> when \<open>devm_kzalloc\<close> fails, the error carried by the pointer when
  \<open>devm_regmap_init_spi\<close> fails, the status of the ID read when it is negative, and
  \<open>-ENODEV\<close> for an unexpected identity. The calls made up to the return are listed:
  no allocation and no register transaction occurs twice.
\<close>

theorem probe_failures_abort:
  "(\<not> kzalloc_ok env \<longrightarrow>
      pr_ret (spisens_probe spi env) = - ENOMEM \<and> pr_ret (spisens_probe spi env) < 0
      \<and> pr_calls (spisens_probe spi env) = [Devm_kzalloc])
   \<and> (kzalloc_ok env \<and> IS_ERR (regmap_ptr env) \<longrightarrow>
      pr_ret (spisens_probe spi env) = regmap_ptr env \<and> pr_ret (spisens_probe spi env) < 0
      \<and> pr_calls (spisens_probe spi env)
          = [Devm_kzalloc, Spi_set_drvdata, Spi_setup, Devm_regmap_init_spi,
             Dev_err (''failed to allocate register map'' @ [nl])])
   \<and> (kzalloc_ok env \<and> \<not> IS_ERR (regmap_ptr env) \<and> rd_status (id_read env) < 0 \<longrightarrow>
      pr_ret (spisens_probe spi env) = rd_status (id_read env)
      \<and> pr_ret (spisens_probe spi env) < 0
      \<and> pr_calls (spisens_probe spi env)
          = [Devm_kzalloc, Spi_set_drvdata, Spi_setup, Devm_regmap_init_spi,
             Regmap_read (regmap_ptr env) SPISENS_REG_ID,
             Dev_err (''error reading ID register'' @ [nl])])
   \<and> (kzalloc_ok env \<and> \<not> IS_ERR (regmap_ptr env) \<and> \<not> rd_status (id_read env) < 0
        \<and> var_after (regval_uninit env) (rd_stored (id_read env)) \<noteq> SPISENS_ID \<longrightarrow>
      pr_ret (spisens_probe spi env) = - ENODEV \<and> pr_ret (spisens_probe spi env) < 0
      \<and> pr_calls (spisens_probe spi env)
          = [Devm_kzalloc, Spi_set_drvdata, Spi_setup, Devm_regmap_init_spi,
             Regmap_read (regmap_ptr env) SPISENS_REG_ID,
             Dev_err (''unexpected ID'' @ [nl])])
   \<and> distinct (pr_calls (spisens_probe spi env))"
  by (simp add: spisens_probe_def Let_def IS_ERR_def PTR_ERR_def ENOMEM_def ENODEV_def)

theorem probe_failures_abort_witness:
  "spisens_probe \<lparr>bits_per_word = 0, drvdata = None\<rparr>
      \<lparr>kzalloc_ok = False, regmap_ptr = 4096,
       id_read = \<lparr>rd_status = 0, rd_stored = Some 0x5A\<rparr>, sysfs_status = 0, regval_uninit = 0\<rparr>
     = \<lparr>pr_ret = - 12, pr_calls = [Devm_kzalloc], pr_spi = \<lparr>bits_per_word = 0, drvdata = None\<rparr>\<rparr>
   \<and> pr_ret (spisens_probe \<lparr>bits_per_word = 0, drvdata = None\<rparr>
      \<lparr>kzalloc_ok = True, regmap_ptr = - 12,
       id_read = \<lparr>rd_status = 0, rd_stored = Some 0x5A\<rparr>, sysfs_status = 0, regval_uninit = 0\<rparr>) = - 12
   \<and> pr_ret (spisens_probe \<lparr>bits_per_word = 0, drvdata = None\<rparr>
      \<lparr>kzalloc_ok = True, regmap_ptr = 4096,
       id_read = \<lparr>rd_status = - 5, rd_stored = None\<rparr>, sysfs_status = 0, regval_uninit = 0\<rparr>) = - 5
   \<and> pr_ret (spisens_probe \<lparr>bits_per_word = 0, drvdata = None\<rparr>
      \<lparr>kzalloc_ok = True, regmap_ptr = 4096,
       id_read = \<lparr>rd_status = 0, rd_stored = Some 0x5B\<rparr>, sysfs_status = 0, regval_uninit = 0\<rparr>) = - 19"
  using
    probe_failures_abort [of "\<lparr>kzalloc_ok = False, regmap_ptr = 4096,
       id_read = \<lparr>rd_status = 0, rd_stored = Some 0x5A\<rparr>, sysfs_status = 0, regval_uninit = 0\<rparr>" "\<lparr>bits_per_word = 0, drvdata = None\<rparr>"]
    probe_failures_abort [of "\<lparr>kzalloc_ok = True, regmap_ptr = - 12,
       id_read = \<lparr>rd_status = 0, rd_stored = Some 0x5A\<rparr>, sysfs_status = 0, regval_uninit = 0\<rparr>" "\<lparr>bits_per_word = 0, drvdata = None\<rparr>"]
    probe_failures_abort [of "\<lparr>kzalloc_ok = True, regmap_ptr = 4096,
       id_read = \<lparr>rd_status = - 5, rd_stored = None\<rparr>, sysfs_status = 0, regval_uninit = 0\<rparr>" "\<lparr>bits_per_word = 0, drvdata = None\<rparr>"]
    probe_failures_abort [of "\<lparr>kzalloc_ok = True, regmap_ptr = 4096,
       id_read = \<lparr>rd_status = 0, rd_stored = Some 0x5B\<rparr>, sysfs_status = 0, regval_uninit = 0\<rparr>" "\<lparr>bits_per_word = 0, drvdata = None\<rparr>"]
  by (simp add: IS_ERR_def MAX_ERRNO_def ENOMEM_def ENODEV_def SPISENS_ID_def var_after_def
      spisens_probe_def)

text \<open>
  Claim C6. The register map's \<open>writeable_reg\<close> predicate holds of the CTRL register
  and of no other, so not of ID or DATA; the only register any driver operation writes is
  CTRL (by \<open>enable_store\<close>; the show callbacks and probe write none); and the \<open>data\<close>
  attribute has no store callback.
\<close>

theorem only_ctrl_written:
  "spisens_regmap_is_writeable dev reg = (reg = SPISENS_REG_CTRL)
   \<and> \<not> spisens_regmap_is_writeable dev SPISENS_REG_ID
   \<and> \<not> spisens_regmap_is_writeable dev SPISENS_REG_DATA
   \<and> map fst (writes (st_calls (enable_store data senv buf count))) = [SPISENS_REG_CTRL]
   \<and> writes (out_calls (enable_show data rd u)) = []
   \<and> writes (out_calls (data_show data rd u)) = []
   \<and> writes (pr_calls (spisens_probe spi penv)) = []
   \<and> attr_store dev_attr_data = None
   \<and> attr_mode dev_attr_data = S_IRUGO
   \<and> map attr_name spisens_attrs = [''enable'', ''data'']"
  by (simp add: spisens_regmap_is_writeable_def reg_values enable_store_def enable_show_def
      data_show_def spisens_probe_def Let_def dev_attr_data_def dev_attr_enable_def
      DEVICE_ATTR_RO_def DEVICE_ATTR_RW_def spisens_attrs_def)

text \<open>
  Claim C9. When everything up to the identity check succeeded and
  \<open>sysfs_create_group\<close> returns a nonzero status, \<open>spisens_probe\<close> logs a message and
  still returns 0.
\<close>

theorem probe_sysfs_failure_ignored:
  assumes "kzalloc_ok env" and "\<not> IS_ERR (regmap_ptr env)"
    and "\<not> rd_status (id_read env) < 0"
    and "var_after (regval_uninit env) (rd_stored (id_read env)) = SPISENS_ID"
    and "sysfs_status env \<noteq> 0"
  shows "pr_ret (spisens_probe spi env) = 0
    \<and> pr_calls (spisens_probe spi env)
        = [Devm_kzalloc, Spi_set_drvdata, Spi_setup, Devm_regmap_init_spi,
           Regmap_read (regmap_ptr env) SPISENS_REG_ID, Sysfs_create_group,
           Dev_info (''Cannot create sysfs'' @ [nl])]"
  using assms by (simp add: spisens_probe_def Let_def)

theorem probe_sysfs_failure_ignored_witness:
  "sysfs_status \<lparr>kzalloc_ok = True, regmap_ptr = 4096,
       id_read = \<lparr>rd_status = 0, rd_stored = Some 0x5A\<rparr>, sysfs_status = - 12, regval_uninit = 0\<rparr> \<noteq> 0
   \<and> spisens_probe \<lparr>bits_per_word = 0, drvdata = None\<rparr>
      \<lparr>kzalloc_ok = True, regmap_ptr = 4096,
       id_read = \<lparr>rd_status = 0, rd_stored = Some 0x5A\<rparr>, sysfs_status = - 12, regval_uninit = 0\<rparr>
     = \<lparr>pr_ret = 0,
        pr_calls = [Devm_kzalloc, Spi_set_drvdata, Spi_setup, Devm_regmap_init_spi,
          Regmap_read 4096 0, Sysfs_create_group, Dev_info (''Cannot create sysfs'' @ [nl])],
        pr_spi = \<lparr>bits_per_word = 8, drvdata = Some \<lparr>regmap = 4096\<rparr>\<rparr>\<rparr>"
  using probe_sysfs_failure_ignored [of "\<lparr>kzalloc_ok = True, regmap_ptr = 4096,
       id_read = \<lparr>rd_status = 0, rd_stored = Some 0x5A\<rparr>, sysfs_status = - 12, regval_uninit = 0\<rparr>" "\<lparr>bits_per_word = 0, drvdata = None\<rparr>"]
  by (simp add: IS_ERR_def MAX_ERRNO_def SPISENS_ID_def var_after_def spisens_probe_def
      reg_values)

end
